theory Spec2Isabelle
  imports Complex_Main "HOL-Library.Word"
begin

section \<open>Duration and instant values (include/fc/time.hpp)\<close>

text \<open>
  \<^verbatim>\<open>int64_t\<close> and \<^verbatim>\<open>uint64_t\<close> are both 64-bit words; the signed reading is
  \<open>sint\<close> and signed comparison is \<open>word_sless\<close> / \<open>word_sle\<close>.
\<close>

type_synonym int64_t = "64 word"
type_synonym uint64_t = "64 word"

record microseconds =
  count :: int64_t

record time_point =
  elapsed :: microseconds

text \<open>\<^verbatim>\<open>explicit microseconds( int64_t c = 0) :_count(c){}\<close>\<close>

definition microseconds :: "int64_t \<Rightarrow> microseconds" where
  "microseconds c = \<lparr>count = c\<rparr>"

text \<open>\<^verbatim>\<open>static microseconds maximum() { return microseconds(0x7fffffffffffffffll); }\<close>\<close>

definition microseconds_maximum :: microseconds where
  "microseconds_maximum = microseconds 0x7fffffffffffffff"

text \<open>\<^verbatim>\<open>operator +\<close>, \<^verbatim>\<open>==\<close>, \<^verbatim>\<open>></ >= < <=\<close> of \<^verbatim>\<open>microseconds\<close>, on the signed counter.\<close>

definition microseconds_plus :: "microseconds \<Rightarrow> microseconds \<Rightarrow> microseconds" where
  "microseconds_plus l r = microseconds (count l + count r)"

definition microseconds_eq :: "microseconds \<Rightarrow> microseconds \<Rightarrow> bool" where
  "microseconds_eq a c = (count a = count c)"

definition microseconds_greater :: "microseconds \<Rightarrow> microseconds \<Rightarrow> bool" where
  "microseconds_greater a b = word_sless (count b) (count a)"

definition microseconds_less :: "microseconds \<Rightarrow> microseconds \<Rightarrow> bool" where
  "microseconds_less a b = word_sless (count a) (count b)"

text \<open>\<^verbatim>\<open>seconds( int64_t s )\<close> and \<^verbatim>\<open>milliseconds( int64_t s )\<close>.\<close>

definition seconds :: "int64_t \<Rightarrow> microseconds" where
  "seconds s = microseconds (s * 1000000)"

definition milliseconds :: "int64_t \<Rightarrow> microseconds" where
  "milliseconds s = microseconds (s * 1000)"

text \<open>\<^verbatim>\<open>explicit time_point( microseconds e = microseconds() ) :elapsed(e){}\<close>\<close>

definition time_point :: "microseconds \<Rightarrow> time_point" where
  "time_point e = \<lparr>elapsed = e\<rparr>"

text \<open>\<^verbatim>\<open>static time_point maximum() { return time_point( microseconds::maximum() ); }\<close>\<close>

definition time_point_maximum :: time_point where
  "time_point_maximum = time_point microseconds_maximum"

text \<open>
  \<^verbatim>\<open>static time_point (min)() { return time_point(); }\<close>: both default arguments
  apply, \<^verbatim>\<open>time_point()\<close> is \<^verbatim>\<open>time_point(microseconds(0))\<close>.
\<close>

definition time_point_min :: time_point where
  "time_point_min = time_point (microseconds 0)"

text \<open>The comparison operators of \<^verbatim>\<open>time_point\<close> compare \<^verbatim>\<open>elapsed._count\<close> as \<^verbatim>\<open>int64_t\<close>.\<close>

definition time_point_greater :: "time_point \<Rightarrow> time_point \<Rightarrow> bool" where
  "time_point_greater a t = word_sless (count (elapsed t)) (count (elapsed a))"

definition time_point_greater_eq :: "time_point \<Rightarrow> time_point \<Rightarrow> bool" where
  "time_point_greater_eq a t = word_sle (count (elapsed t)) (count (elapsed a))"

definition time_point_less :: "time_point \<Rightarrow> time_point \<Rightarrow> bool" where
  "time_point_less a t = word_sless (count (elapsed a)) (count (elapsed t))"

definition time_point_less_eq :: "time_point \<Rightarrow> time_point \<Rightarrow> bool" where
  "time_point_less_eq a t = word_sle (count (elapsed a)) (count (elapsed t))"

definition time_point_eq :: "time_point \<Rightarrow> time_point \<Rightarrow> bool" where
  "time_point_eq a t = (count (elapsed a) = count (elapsed t))"

text \<open>\<^verbatim>\<open>operator +( time_point, microseconds )\<close> and \<^verbatim>\<open>operator -( time_point, time_point )\<close>.\<close>

definition time_point_plus :: "time_point \<Rightarrow> microseconds \<Rightarrow> time_point" where
  "time_point_plus t m = time_point (microseconds_plus (elapsed t) m)"

definition time_point_minus :: "time_point \<Rightarrow> time_point \<Rightarrow> microseconds" where
  "time_point_minus t m = microseconds (count (elapsed t) - count (elapsed m))"


section \<open>The variant value (include/fc/variant.hpp)\<close>

text \<open>\<^verbatim>\<open>enum type_id\<close>, in the order of its numeric values 0 to 7.\<close>

datatype type_id =
    null_type
  | int64_type
  | uint64_type
  | double_type
  | bool_type
  | string_type
  | array_type
  | object_type

text \<open>
  A \<^verbatim>\<open>double\<close> payload is represented by the real number a finite IEEE double denotes.
  The variant holds exactly one of its eight kinds; \<^verbatim>\<open>variants\<close> is
  \<^verbatim>\<open>std::vector<variant>\<close>, and the object kind (the collaborator \<^verbatim>\<open>variant_object\<close>) is a
  sequence of key/value entries.
\<close>

type_synonym double = real

datatype variant =
    Null
  | Int64 int64_t
  | UInt64 uint64_t
  | Double double
  | Bool bool
  | String string
  | Array "variant list"
  | Object "(string \<times> variant) list"

type_synonym variants = "variant list"
type_synonym variant_object = "(string \<times> variant) list"

text \<open>What a failing call throws. The accessors throw \<open>type_mismatch\<close>; a user-written
  \<^verbatim>\<open>from_variant\<close> may throw anything else.\<close>

datatype exception = type_mismatch | other_exception

text \<open>
  Modelled from the spec: the bodies of \<^verbatim>\<open>get_type\<close> and of the tag tests are not in the
  header. ``\<^verbatim>\<open>get_type()\<close> is an O(1) tag read''; the \<^verbatim>\<open>is_*\<close> tests are tag tests and
  \<^verbatim>\<open>is_numeric()\<close> is true for Int64, UInt64, Double and Bool.
\<close>

fun get_type :: "variant \<Rightarrow> type_id" where
  "get_type Null = null_type"
| "get_type (Int64 x) = int64_type"
| "get_type (UInt64 x) = uint64_type"
| "get_type (Double d) = double_type"
| "get_type (Bool b) = bool_type"
| "get_type (String s) = string_type"
| "get_type (Array vs) = array_type"
| "get_type (Object kvs) = object_type"

definition is_null :: "variant \<Rightarrow> bool" where
  "is_null v = (get_type v = null_type)"

definition is_string :: "variant \<Rightarrow> bool" where
  "is_string v = (get_type v = string_type)"

definition is_array :: "variant \<Rightarrow> bool" where
  "is_array v = (get_type v = array_type)"

definition is_object :: "variant \<Rightarrow> bool" where
  "is_object v = (get_type v = object_type)"

definition is_numeric :: "variant \<Rightarrow> bool" where
  "is_numeric v =
     (get_type v = int64_type \<or> get_type v = uint64_type
      \<or> get_type v = double_type \<or> get_type v = bool_type)"

text \<open>
  Modelled from the spec: the typed constructors are declared only. ``Integral, floating,
  boolean: matching numeric kind with standard widening (32-bit int to 64-bit)''.
  \<^verbatim>\<open>variant( int val )\<close> sign-extends.
\<close>

definition variant_int :: "32 word \<Rightarrow> variant" where
  "variant_int val = Int64 (scast val)"

text \<open>
  Modelled from the spec: \<^verbatim>\<open>operator=( variant&& v )\<close> is declared only. ``Move is O(1) and
  leaves the source Null''; the destination adopts the moved value. The result is the pair
  (destination, source) after the assignment.
\<close>

definition assign_move :: "variant \<Rightarrow> variant \<Rightarrow> variant \<times> variant" where
  "assign_move this v = (v, Null)"


subsection \<open>Accessors\<close>

text \<open>
  Modelled from the spec: the bodies of \<^verbatim>\<open>get_string\<close>, \<^verbatim>\<open>get_array\<close> and \<^verbatim>\<open>get_object\<close> are
  not in the header. They ``require an exact tag match and fail with a type-mismatch
  condition otherwise''; the mutable \<^verbatim>\<open>get_array()\<close> / \<^verbatim>\<open>get_object()\<close> on a Null variant
  ``is permitted and promotes the variant in place to an empty Array/Object''; ``the const
  form grants no such promotion and fails on Null''. The header's own comments agree:
  \<^verbatim>\<open>@pre get_type() == string_type\<close>, \<^verbatim>\<open>@throw if get_type() != array_type | null_type\<close> (mutable),
  \<^verbatim>\<open>@throw if get_type() != array_type\<close> (const).

  A mutable accessor returns the variant after the call together with its outcome.
\<close>

fun get_string :: "variant \<Rightarrow> exception + string" where
  "get_string (String s) = Inr s"
| "get_string v = Inl type_mismatch"

fun get_array_const :: "variant \<Rightarrow> exception + variants" where
  "get_array_const (Array vs) = Inr vs"
| "get_array_const v = Inl type_mismatch"

fun get_array :: "variant \<Rightarrow> variant \<times> (exception + variants)" where
  "get_array (Array vs) = (Array vs, Inr vs)"
| "get_array Null = (Array [], Inr [])"
| "get_array v = (v, Inl type_mismatch)"

fun get_object_const :: "variant \<Rightarrow> exception + variant_object" where
  "get_object_const (Object kvs) = Inr kvs"
| "get_object_const v = Inl type_mismatch"

fun get_object :: "variant \<Rightarrow> variant \<times> (exception + variant_object)" where
  "get_object (Object kvs) = (Object kvs, Inr kvs)"
| "get_object Null = (Object [], Inr [])"
| "get_object v = (v, Inl type_mismatch)"

text \<open>Decimal text of a natural number and of an integer.\<close>

definition digit :: "nat \<Rightarrow> char" where
  "digit n = ''0123456789'' ! n"

function to_decimal :: "nat \<Rightarrow> string" where
  "to_decimal n = (if n < 10 then [digit n] else to_decimal (n div 10) @ [digit (n mod 10)])"
  by pat_completeness auto
termination
  by (relation "measure (\<lambda>n. n)") auto

declare to_decimal.simps [simp del]

definition int_to_string :: "int \<Rightarrow> string" where
  "int_to_string i = (if i < 0 then CHR ''-'' # to_decimal (nat (- i)) else to_decimal (nat i))"

text \<open>
  Modelled from the spec: the body of \<^verbatim>\<open>as_string\<close> is not in the header. It ``renders any
  numeric/boolean/null value as text but fails with a type-mismatch condition if the kind is
  Array or Object'' (the header: \<^verbatim>\<open>@throw if get_type() == array_type | get_type() == object_type\<close>),
  and \<^verbatim>\<open>variant(42).as_string()\<close> yields \<^verbatim>\<open>"42"\<close>: integers are rendered in decimal. The
  texts of Null, of a double and of a boolean are not fixed by the spec: they are the
  parameters \<open>null_text\<close>, \<open>double_text\<close> and \<open>bool_text\<close>.
\<close>

fun as_string :: "string \<Rightarrow> (double \<Rightarrow> string) \<Rightarrow> (bool \<Rightarrow> string) \<Rightarrow> variant \<Rightarrow> exception + string" where
  "as_string null_text double_text bool_text Null = Inr null_text"
| "as_string null_text double_text bool_text (Int64 x) = Inr (int_to_string (sint x))"
| "as_string null_text double_text bool_text (UInt64 x) = Inr (int_to_string (uint x))"
| "as_string null_text double_text bool_text (Double d) = Inr (double_text d)"
| "as_string null_text double_text bool_text (Bool b) = Inr (bool_text b)"
| "as_string null_text double_text bool_text (String s) = Inr s"
| "as_string null_text double_text bool_text (Array vs) = Inl type_mismatch"
| "as_string null_text double_text bool_text (Object kvs) = Inl type_mismatch"

text \<open>Truncation toward zero, the C++ conversion of a floating value to an integer.\<close>

definition trunc_toward_zero :: "double \<Rightarrow> int" where
  "trunc_toward_zero d = (if d < 0 then - \<lfloor>- d\<rfloor> else \<lfloor>d\<rfloor>)"

text \<open>
  Modelled from the spec: the bodies of \<^verbatim>\<open>as_int64\<close>, \<^verbatim>\<open>as_uint64\<close>, \<^verbatim>\<open>as_bool\<close> and
  \<^verbatim>\<open>as_double\<close> are not in the header. They ``perform best-effort coercion across numeric
  kinds (a Double answers \<^verbatim>\<open>as_int64()\<close> by truncation; \<^verbatim>\<open>as_uint64()\<close> on a negative Int64
  reinterprets bits rather than failing)''. The spec does not say what they do on Null,
  String, Array and Object: that is the parameter \<open>rest\<close>. Int64 and UInt64 share the
  64-bit pattern, so conversion between them is the identity on the word; a truncated
  double is reduced modulo \<open>2^64\<close>; an integer converted to \<^verbatim>\<open>double\<close> is rounded by the
  parameter \<open>rnd\<close>.
\<close>

fun as_int64 :: "(variant \<Rightarrow> exception + int64_t) \<Rightarrow> variant \<Rightarrow> exception + int64_t" where
  "as_int64 rest (Int64 x) = Inr x"
| "as_int64 rest (UInt64 x) = Inr x"
| "as_int64 rest (Double d) = Inr (word_of_int (trunc_toward_zero d))"
| "as_int64 rest (Bool b) = Inr (if b then 1 else 0)"
| "as_int64 rest v = rest v"

fun as_uint64 :: "(variant \<Rightarrow> exception + uint64_t) \<Rightarrow> variant \<Rightarrow> exception + uint64_t" where
  "as_uint64 rest (Int64 x) = Inr x"
| "as_uint64 rest (UInt64 x) = Inr x"
| "as_uint64 rest (Double d) = Inr (word_of_int (trunc_toward_zero d))"
| "as_uint64 rest (Bool b) = Inr (if b then 1 else 0)"
| "as_uint64 rest v = rest v"

fun as_bool :: "(variant \<Rightarrow> exception + bool) \<Rightarrow> variant \<Rightarrow> exception + bool" where
  "as_bool rest (Int64 x) = Inr (x \<noteq> 0)"
| "as_bool rest (UInt64 x) = Inr (x \<noteq> 0)"
| "as_bool rest (Double d) = Inr (d \<noteq> 0)"
| "as_bool rest (Bool b) = Inr b"
| "as_bool rest v = rest v"

fun as_double :: "(real \<Rightarrow> double) \<Rightarrow> (variant \<Rightarrow> exception + double) \<Rightarrow> variant \<Rightarrow> exception + double" where
  "as_double rnd rest (Int64 x) = Inr (rnd (real_of_int (sint x)))"
| "as_double rnd rest (UInt64 x) = Inr (rnd (real_of_int (uint x)))"
| "as_double rnd rest (Double d) = Inr d"
| "as_double rnd rest (Bool b) = Inr (if b then 1 else 0)"
| "as_double rnd rest v = rest v"


section \<open>The serialization protocol (include/fc/variant.hpp)\<close>

text \<open>
  A serializable type \<^verbatim>\<open>T\<close> is given by its pair
  \<^verbatim>\<open>void to_variant( const T& e, variant& v )\<close> and
  \<^verbatim>\<open>void from_variant( const variant& e, T& ll )\<close>, together with its default-constructed value
  (\<^verbatim>\<open>T tmp;\<close>, \<^verbatim>\<open>T()\<close>, \<^verbatim>\<open>std::make_shared<T>()\<close>). Both functions write through a reference:
  \<open>to_variant_T\<close> takes the output variant as it is before the call and returns it as it
  is after, and is taken to return normally; \<open>from_variant_T\<close> takes the target before the
  call and returns the target as the call leaves it, with the exception if one was thrown.
\<close>

record 'a serializable =
  to_variant_T :: "'a \<Rightarrow> variant \<Rightarrow> variant"
  from_variant_T :: "variant \<Rightarrow> 'a \<Rightarrow> 'a \<times> exception option"
  default_T :: 'a

text \<open>
  \<^verbatim>\<open>template<typename T> variant::variant( const T& val )\<close>:
  \<^verbatim>\<open>memset( this, 0, sizeof(*this) ); to_variant( val, *this );\<close>. All-zero storage has tag
  \<^verbatim>\<open>null_type = 0\<close>.
\<close>

definition variant_T :: "'a serializable \<Rightarrow> 'a \<Rightarrow> variant" where
  "variant_T P val = to_variant_T P val Null"

text \<open>\<^verbatim>\<open>template<typename T> T as()const { T tmp; from_variant( *this, tmp ); return tmp; }\<close>\<close>

definition as_T :: "'a serializable \<Rightarrow> variant \<Rightarrow> exception + 'a" where
  "as_T P this =
     (case from_variant_T P this (default_T P) of
        (tmp, None) \<Rightarrow> Inr tmp
      | (tmp, Some e) \<Rightarrow> Inl e)"


subsection \<open>Optional values\<close>

text \<open>
  \<^verbatim>\<open>template<typename T> variant( const optional<T>& v ) { if( v ) *this = variant(*v); }\<close>

  This constructor has no member initializer and, unlike the generic constructor above, no
  \<^verbatim>\<open>memset\<close>: the members \<^verbatim>\<open>_data\<close> and \<^verbatim>\<open>_type\<close> start out as whatever the storage holds.
  The parameter \<open>raw\<close> is the variant this uninitialised storage reads as.
\<close>

definition variant_optional :: "'a serializable \<Rightarrow> variant \<Rightarrow> 'a option \<Rightarrow> variant" where
  "variant_optional P raw v =
     (case v of
        Some x \<Rightarrow> fst (assign_move raw (variant_T P x))
      | None \<Rightarrow> raw)"

text \<open>
  \<^verbatim>\<open>from_variant( const variant& var, optional<T>& vo )\<close>:
  \<^verbatim>\<open>if( var.is_null() ) vo = optional<T>(); else { vo = T(); from_variant( var, *vo ); }\<close>
\<close>

definition from_variant_optional ::
  "'a serializable \<Rightarrow> variant \<Rightarrow> 'a option \<Rightarrow> 'a option \<times> exception option" where
  "from_variant_optional P var vo =
     (if is_null var then (None, None)
      else (case from_variant_T P var (default_T P) of (x, e) \<Rightarrow> (Some x, e)))"


subsection \<open>Vectors\<close>

text \<open>
  \<^verbatim>\<open>to_variant( const std::vector<T>& t, variant& v )\<close>:
  \<^verbatim>\<open>std::vector<variant> vars(t.size());\<close>
  \<^verbatim>\<open>for( size_t i = 0; i < t.size(); ++i ) vars[i] = variant(t[i]);\<close>
  \<^verbatim>\<open>v = vars;\<close>
\<close>

function to_variant_vector_loop ::
  "'a serializable \<Rightarrow> 'a list \<Rightarrow> nat \<Rightarrow> variants \<Rightarrow> variants" where
  "to_variant_vector_loop P t i vars =
     (if i < length t
      then to_variant_vector_loop P t (Suc i) (vars[i := variant_T P (t ! i)])
      else vars)"
  by pat_completeness auto
termination
  by (relation "measure (\<lambda>(P, t, i, vars). length t - i)") auto

declare to_variant_vector_loop.simps [simp del]

definition to_variant_vector :: "'a serializable \<Rightarrow> 'a list \<Rightarrow> variant \<Rightarrow> variant" where
  "to_variant_vector P t v = Array (to_variant_vector_loop P t 0 (replicate (length t) Null))"

text \<open>
  \<^verbatim>\<open>from_variant( const variant& var, std::vector<T>& tmp )\<close>:
  \<^verbatim>\<open>const variants& vars = var.get_array();\<close>
  \<^verbatim>\<open>tmp.clear(); tmp.reserve( vars.size() );\<close>
  \<^verbatim>\<open>for( auto itr = vars.begin(); itr != vars.end(); ++itr ) tmp.push_back( itr->as<T>() );\<close>
  \<^verbatim>\<open>var\<close> is const, so \<^verbatim>\<open>get_array\<close> is the const form. \<^verbatim>\<open>reserve\<close> changes the capacity
  only. An exception of \<^verbatim>\<open>as<T>()\<close> leaves the loop with \<^verbatim>\<open>tmp\<close> as it is at that point.
\<close>

fun from_variant_vector_loop ::
  "'a serializable \<Rightarrow> variants \<Rightarrow> 'a list \<Rightarrow> 'a list \<times> exception option" where
  "from_variant_vector_loop P [] tmp = (tmp, None)"
| "from_variant_vector_loop P (itr # vars) tmp =
     (case as_T P itr of
        Inl e \<Rightarrow> (tmp, Some e)
      | Inr x \<Rightarrow> from_variant_vector_loop P vars (tmp @ [x]))"

definition from_variant_vector ::
  "'a serializable \<Rightarrow> variant \<Rightarrow> 'a list \<Rightarrow> 'a list \<times> exception option" where
  "from_variant_vector P var tmp =
     (case get_array_const var of
        Inl e \<Rightarrow> (tmp, Some e)
      | Inr vars \<Rightarrow> from_variant_vector_loop P vars [])"

text \<open>The pair for \<^verbatim>\<open>std::vector<T>\<close>, built from the pair for \<^verbatim>\<open>T\<close>.\<close>

definition vector_serializable :: "'a serializable \<Rightarrow> 'a list serializable" where
  "vector_serializable P =
     \<lparr>to_variant_T = to_variant_vector P,
      from_variant_T = from_variant_vector P,
      default_T = []\<rparr>"


subsection \<open>Sets\<close>

text \<open>
  \<^verbatim>\<open>to_variant( const std::unordered_set<T>& var, variant& vo )\<close> and
  \<^verbatim>\<open>to_variant( const std::set<T>& var, variant& vo )\<close> have the same body:
  \<^verbatim>\<open>std::vector<variant> vars(var.size()); size_t i = 0;\<close>
  \<^verbatim>\<open>for( auto itr = var.begin(); itr != var.end(); ++itr, ++i ) vars[i] = variant(*itr);\<close>
  \<^verbatim>\<open>vo = vars;\<close>
  The loop runs over the elements in the container's iteration order.
\<close>

fun to_variant_set_loop ::
  "'a serializable \<Rightarrow> 'a list \<Rightarrow> nat \<Rightarrow> variants \<Rightarrow> variants" where
  "to_variant_set_loop P [] i vars = vars"
| "to_variant_set_loop P (itr # rest) i vars =
     to_variant_set_loop P rest (Suc i) (vars[i := variant_T P itr])"

text \<open>
  A \<^verbatim>\<open>std::unordered_set<T>\<close> is the set of its elements; the order in which
  \<^verbatim>\<open>begin()\<close> to \<^verbatim>\<open>end()\<close> visits them depends on the hash table and is the parameter
  \<open>order\<close>.
\<close>

definition to_variant_unordered_set ::
  "'a serializable \<Rightarrow> ('a set \<Rightarrow> 'a list) \<Rightarrow> 'a set \<Rightarrow> variant \<Rightarrow> variant" where
  "to_variant_unordered_set P order var vo =
     Array (to_variant_set_loop P (order var) 0 (replicate (card var) Null))"

text \<open>
  A \<^verbatim>\<open>std::set<T>\<close> is the set of its elements as well. \<^verbatim>\<open>begin()\<close> to \<^verbatim>\<open>end()\<close> visits them
  in ascending order of \<^verbatim>\<open>T\<close>'s own comparison (\<^verbatim>\<open>std::less<T>\<close>, for \<^verbatim>\<open>int64_t\<close> the signed
  order \<open>word_sless\<close>). The visiting order is the parameter \<open>ascending\<close>; that it is
  ascending for \<^verbatim>\<open>T\<close>'s comparison is the predicate \<open>visits_ascending\<close>.
\<close>

definition to_variant_set ::
  "'a serializable \<Rightarrow> ('a set \<Rightarrow> 'a list) \<Rightarrow> 'a set \<Rightarrow> variant \<Rightarrow> variant" where
  "to_variant_set P ascending var vo =
     Array (to_variant_set_loop P (ascending var) 0 (replicate (card var) Null))"

definition visits_ascending :: "('a \<Rightarrow> 'a \<Rightarrow> bool) \<Rightarrow> ('a set \<Rightarrow> 'a list) \<Rightarrow> 'a set \<Rightarrow> bool" where
  "visits_ascending lt ascending var =
     (set (ascending var) = var \<and> sorted_wrt lt (ascending var))"

text \<open>
  \<^verbatim>\<open>from_variant( const variant& var, std::unordered_set<T>& vo )\<close>:
  \<^verbatim>\<open>const variants& vars = var.get_array();\<close>
  \<^verbatim>\<open>vo.clear(); vo.reserve( vars.size() );\<close>
  \<^verbatim>\<open>for( auto itr = vars.begin(); itr != vars.end(); ++itr ) vo.insert( itr->as<T>() );\<close>
\<close>

fun from_variant_unordered_set_loop ::
  "'a serializable \<Rightarrow> variants \<Rightarrow> 'a set \<Rightarrow> 'a set \<times> exception option" where
  "from_variant_unordered_set_loop P [] vo = (vo, None)"
| "from_variant_unordered_set_loop P (itr # vars) vo =
     (case as_T P itr of
        Inl e \<Rightarrow> (vo, Some e)
      | Inr x \<Rightarrow> from_variant_unordered_set_loop P vars (insert x vo))"

definition from_variant_unordered_set ::
  "'a serializable \<Rightarrow> variant \<Rightarrow> 'a set \<Rightarrow> 'a set \<times> exception option" where
  "from_variant_unordered_set P var vo =
     (case get_array_const var of
        Inl e \<Rightarrow> (vo, Some e)
      | Inr vars \<Rightarrow> from_variant_unordered_set_loop P vars {})"

text \<open>
  \<^verbatim>\<open>from_variant( const variant& var, std::set<T>& vo )\<close> repeats the body of the
  \<^verbatim>\<open>unordered_set\<close> overload, \<^verbatim>\<open>vo.reserve( vars.size() );\<close> included. \<^verbatim>\<open>std::set\<close> has no
  member \<^verbatim>\<open>reserve\<close>, so the template has no well-formed instantiation for any \<^verbatim>\<open>T\<close>: there
  is no function to embed.
\<close>


subsection \<open>Owning pointers\<close>

text \<open>
  Objects owned through \<^verbatim>\<open>std::shared_ptr<T>\<close> live in a store: a list of \<^verbatim>\<open>T\<close> objects
  whose positions are their addresses. A pointer is empty (\<open>None\<close>) or holds an address.
  \<^verbatim>\<open>std::make_shared<T>()\<close> allocates a value-initialised object at the next free
  address and returns that address. Releasing an object when its last owner lets go is not modelled: the store
  keeps the cell.
\<close>

type_synonym 'a store = "'a list"
type_synonym shared_ptr = "nat option"

definition make_shared :: "'a serializable \<Rightarrow> 'a store \<Rightarrow> 'a store \<times> nat" where
  "make_shared P h = (h @ [default_T P], length h)"

text \<open>
  \<^verbatim>\<open>to_variant( const std::shared_ptr<T>& var, variant& vo )\<close>:
  \<^verbatim>\<open>if( var ) to_variant( *var, vo ); else vo = nullptr;\<close>
\<close>

definition to_variant_shared_ptr ::
  "'a serializable \<Rightarrow> 'a store \<Rightarrow> shared_ptr \<Rightarrow> variant \<Rightarrow> variant" where
  "to_variant_shared_ptr P h var vo =
     (case var of
        Some p \<Rightarrow> to_variant_T P (h ! p) vo
      | None \<Rightarrow> fst (assign_move vo Null))"

text \<open>
  \<^verbatim>\<open>from_variant( const variant& var, std::shared_ptr<T>& vo )\<close>:
  \<^verbatim>\<open>if( var.is_null() ) vo = nullptr;\<close>
  \<^verbatim>\<open>else if( vo ) from_variant( var, *vo );\<close>
  \<^verbatim>\<open>else { vo = std::make_shared<T>(); from_variant( var, *vo ); }\<close>
  The state is the store together with the pointer.
\<close>

definition from_variant_shared_ptr ::
  "'a serializable \<Rightarrow> variant \<Rightarrow> 'a store \<times> shared_ptr
     \<Rightarrow> ('a store \<times> shared_ptr) \<times> exception option" where
  "from_variant_shared_ptr P var s =
     (case s of (h, vo) \<Rightarrow>
        if is_null var then ((h, None), None)
        else (case vo of
                Some p \<Rightarrow>
                  (case from_variant_T P var (h ! p) of (x, e) \<Rightarrow> ((h[p := x], Some p), e))
              | None \<Rightarrow>
                  (case make_shared P h of (h', p) \<Rightarrow>
                     (case from_variant_T P var (h' ! p) of
                        (x, e) \<Rightarrow> ((h'[p := x], Some p), e)))))"


subsection \<open>A built-in element type\<close>

text \<open>
  Modelled from the spec: \<^verbatim>\<open>variant( int64_t val )\<close> and
  \<^verbatim>\<open>from_variant( const variant& var, int64_t& vo )\<close> are declared only. The constructor gives
  the Int64 kind; the conversion back reads the variant with \<^verbatim>\<open>as_int64()\<close>
  (``\<^verbatim>\<open>variant(v).as<K>() == v\<close>, exact for Int64'').
\<close>

definition int64_serializable :: "(variant \<Rightarrow> exception + int64_t) \<Rightarrow> int64_t serializable" where
  "int64_serializable rest =
     \<lparr>to_variant_T = (\<lambda>val vo. Int64 val),
      from_variant_T = (\<lambda>var vo. case as_int64 rest var of Inl e \<Rightarrow> (vo, Some e) | Inr x \<Rightarrow> (x, None)),
      default_T = 0\<rparr>"


section \<open>Storage discipline of the variant\<close>

text \<open>
  Modelled from the spec: the move constructor, the move assignment and the destructor are
  declared only. ``Holds a type tag plus a payload that is either inline or a heap-owned
  handle to a String, an Array or an Object; the heap handle is present if and only if the
  tag is String, Array, or Object; move-constructed transfers the heap handle in O(1) and
  resets the source to Null (valid but empty); destroyed by tag-dispatched release, a no-op
  for inline kinds; both assignment forms must release any payload previously held by the
  destination before adopting the new one''.

  A variant object is its tag and its 8-byte slot (inline bits, or the handle). The heap
  maps a handle to the payload it holds and keeps the log of the handles released so far.
\<close>

datatype payload =
    string_payload string
  | array_payload variants
  | object_payload variant_object

record variant_storage =
  type_tag :: type_id
  slot :: nat

record heap =
  cells :: "nat \<rightharpoonup> payload"
  released :: "nat list"

definition owns_payload :: "variant_storage \<Rightarrow> bool" where
  "owns_payload v =
     (type_tag v = string_type \<or> type_tag v = array_type \<or> type_tag v = object_type)"

definition storage_is_null :: "variant_storage \<Rightarrow> bool" where
  "storage_is_null v = (type_tag v = null_type)"

definition null_storage :: variant_storage where
  "null_storage = \<lparr>type_tag = null_type, slot = 0\<rparr>"

text \<open>\<^verbatim>\<open>~variant()\<close>: releases the payload of a String, Array or Object, nothing otherwise.\<close>

definition destroy :: "variant_storage \<Rightarrow> heap \<Rightarrow> heap" where
  "destroy v h =
     (if owns_payload v
      then \<lparr>cells = (cells h)(slot v := None), released = slot v # released h\<rparr>
      else h)"

text \<open>\<^verbatim>\<open>variant( variant&& v )\<close>: the pair is (new variant, source after the move).\<close>

definition move_construct :: "variant_storage \<Rightarrow> variant_storage \<times> variant_storage" where
  "move_construct v = (v, null_storage)"

text \<open>\<^verbatim>\<open>operator=( variant&& v )\<close>: (destination after, source after, heap after).\<close>

definition move_assign ::
  "variant_storage \<Rightarrow> variant_storage \<Rightarrow> heap \<Rightarrow> variant_storage \<times> variant_storage \<times> heap" where
  "move_assign this v h = (v, null_storage, destroy this h)"


section \<open>The container loops\<close>

lemma to_variant_vector_loop_eq:
  "i \<le> length t \<Longrightarrow> length vars = length t \<Longrightarrow>
   to_variant_vector_loop P t i vars = take i vars @ map (variant_T P) (drop i t)"
proof (induction P t i vars rule: to_variant_vector_loop.induct)
  case (1 P t i vars)
  show ?case
  proof (cases "i < length t")
    case True
    have step: "to_variant_vector_loop P t i vars =
        to_variant_vector_loop P t (Suc i) (vars[i := variant_T P (t ! i)])"
      using True by (subst to_variant_vector_loop.simps) simp
    have ih: "to_variant_vector_loop P t (Suc i) (vars[i := variant_T P (t ! i)]) =
        take (Suc i) (vars[i := variant_T P (t ! i)]) @ map (variant_T P) (drop (Suc i) t)"
      using "1.IH" [OF True] True "1.prems" by simp
    have tk: "take (Suc i) (vars[i := variant_T P (t ! i)]) = take i vars @ [variant_T P (t ! i)]"
      using True "1.prems" by (simp add: take_Suc_conv_app_nth)
    have dr: "drop i t = t ! i # drop (Suc i) t"
      using True by (simp add: Cons_nth_drop_Suc)
    show ?thesis
      by (simp only: step ih tk dr) simp
  next
    case False
    with "1.prems" have "i = length t" by simp
    then show ?thesis
      using "1.prems" by (subst to_variant_vector_loop.simps) simp
  qed
qed

lemma to_variant_vector_eq: "to_variant_vector P t v = Array (map (variant_T P) t)"
  by (simp add: to_variant_vector_def to_variant_vector_loop_eq)

lemma from_variant_vector_loop_success:
  "map (as_T P) vars = map Inr xs \<Longrightarrow>
   from_variant_vector_loop P vars tmp = (tmp @ xs, None)"
proof (induction vars arbitrary: tmp xs)
  case Nil
  then show ?case by simp
next
  case (Cons v vars)
  then obtain x xs' where xs: "xs = x # xs'" and v: "as_T P v = Inr x"
    and rest: "map (as_T P) vars = map Inr xs'"
    by (cases xs) auto
  show ?case
    using Cons.IH [OF rest, of "tmp @ [x]"] by (simp add: xs v)
qed

lemma from_variant_vector_loop_failure:
  "map (as_T P) pre = map Inr xs \<Longrightarrow> as_T P bad = Inl e \<Longrightarrow>
   from_variant_vector_loop P (pre @ bad # post) tmp = (tmp @ xs, Some e)"
proof (induction pre arbitrary: tmp xs)
  case Nil
  then show ?case by simp
next
  case (Cons v pre)
  then obtain x xs' where xs: "xs = x # xs'" and v: "as_T P v = Inr x"
    and rest: "map (as_T P) pre = map Inr xs'"
    by (cases xs) auto
  show ?case
    using Cons.IH [OF rest Cons.prems(2), of "tmp @ [x]"] by (simp add: xs v)
qed

lemma to_variant_set_loop_eq:
  "i + length itr = length vars \<Longrightarrow>
   to_variant_set_loop P itr i vars = take i vars @ map (variant_T P) itr"
proof (induction itr arbitrary: i vars)
  case Nil
  then show ?case by simp
next
  case (Cons x itr)
  have i: "i < length vars"
    using Cons.prems by simp
  have "to_variant_set_loop P (x # itr) i vars =
      to_variant_set_loop P itr (Suc i) (vars[i := variant_T P x])"
    by simp
  also have "\<dots> = take (Suc i) (vars[i := variant_T P x]) @ map (variant_T P) itr"
    using Cons.prems by (intro Cons.IH) simp
  also have "take (Suc i) (vars[i := variant_T P x]) = take i vars @ [variant_T P x]"
    using i by (simp add: take_Suc_conv_app_nth)
  finally show ?case by simp
qed

lemma from_variant_unordered_set_loop_success:
  "map (as_T P) vars = map Inr xs \<Longrightarrow>
   from_variant_unordered_set_loop P vars vo = (vo \<union> set xs, None)"
proof (induction vars arbitrary: vo xs)
  case Nil
  then show ?case by simp
next
  case (Cons v vars)
  then obtain x xs' where xs: "xs = x # xs'" and v: "as_T P v = Inr x"
    and rest: "map (as_T P) vars = map Inr xs'"
    by (cases xs) auto
  show ?case
    using Cons.IH [OF rest, of "insert x vo"] by (simp add: xs v)
qed

lemma from_variant_unordered_set_loop_failure:
  "map (as_T P) pre = map Inr xs \<Longrightarrow> as_T P bad = Inl e \<Longrightarrow>
   from_variant_unordered_set_loop P (pre @ bad # post) vo = (vo \<union> set xs, Some e)"
proof (induction pre arbitrary: vo xs)
  case Nil
  then show ?case by simp
next
  case (Cons v pre)
  then obtain x xs' where xs: "xs = x # xs'" and v: "as_T P v = Inr x"
    and rest: "map (as_T P) pre = map Inr xs'"
    by (cases xs) auto
  show ?case
    using Cons.IH [OF rest Cons.prems(2), of "insert x vo"] by (simp add: xs v)
qed

lemma map_as_T_round_trip:
  "\<forall>x \<in> set xs. as_T P (variant_T P x) = Inr x \<Longrightarrow>
   map (as_T P) (map (variant_T P) xs) = map Inr xs"
  by (induction xs) simp_all

lemma sorted_wrt_irreflexive_distinct:
  "sorted_wrt lt xs \<Longrightarrow> \<forall>x. \<not> lt x x \<Longrightarrow> distinct xs"
  by (induction xs) auto

section \<open>Owning pointers\<close>

text \<open>
  C1. \<^verbatim>\<open>from_variant\<close> into a \<^verbatim>\<open>std::shared_ptr<T>\<close>: a Null source resets the pointer to
  empty and leaves the store alone; a non-Null source with a pointer that owns the object at
  address \<open>p\<close> converts into that object in place: the pointer still holds \<open>p\<close>, the
  store has the same size (nothing is allocated), the object at \<open>p\<close> is what \<^verbatim>\<open>T\<close>'s own
  \<^verbatim>\<open>from_variant\<close> makes of the old object, and every other object is untouched; a non-Null
  source with an empty pointer allocates one default-constructed object and converts into
  it. The store grows only in that last case. \<^verbatim>\<open>to_variant\<close> of an empty pointer is Null, and
  of a non-empty pointer it is what \<^verbatim>\<open>T\<close>'s own \<^verbatim>\<open>to_variant\<close> writes for the pointee, which
  for a freshly constructed variant is \<^verbatim>\<open>variant(*var)\<close>.
\<close>

theorem shared_ptr_conversion:
  "(is_null var \<longrightarrow> from_variant_shared_ptr P var (h, vo) = ((h, None), None))
   \<and> (\<not> is_null var \<and> vo = Some p \<and> p < length h \<longrightarrow>
        (\<exists>h' e. from_variant_shared_ptr P var (h, vo) = ((h', Some p), e)
           \<and> length h' = length h
           \<and> (h' ! p, e) = from_variant_T P var (h ! p)
           \<and> (\<forall>q. q \<noteq> p \<longrightarrow> h' ! q = h ! q)))
   \<and> (\<not> is_null var \<and> vo = None \<longrightarrow>
        (\<exists>h' e. from_variant_shared_ptr P var (h, vo) = ((h', Some (length h)), e)
           \<and> length h' = Suc (length h)
           \<and> (h' ! length h, e) = from_variant_T P var (default_T P)
           \<and> (\<forall>q < length h. h' ! q = h ! q)))
   \<and> (length (fst (fst (from_variant_shared_ptr P var (h, vo)))) \<noteq> length h
        \<longrightarrow> vo = None \<and> \<not> is_null var)
   \<and> to_variant_shared_ptr P h None v = Null
   \<and> to_variant_shared_ptr P h (Some p) v = to_variant_T P (h ! p) v
   \<and> to_variant_shared_ptr P h (Some p) Null = variant_T P (h ! p)"
proof (intro conjI impI)
  assume "is_null var"
  then show "from_variant_shared_ptr P var (h, vo) = ((h, None), None)"
    by (simp add: from_variant_shared_ptr_def)
next
  assume a: "\<not> is_null var \<and> vo = Some p \<and> p < length h"
  obtain x e where r: "from_variant_T P var (h ! p) = (x, e)"
    by (cases "from_variant_T P var (h ! p)")
  have "from_variant_shared_ptr P var (h, vo) = ((h[p := x], Some p), e)"
    using a r by (simp add: from_variant_shared_ptr_def)
  moreover have "length (h[p := x]) = length h"
    by simp
  moreover have "(h[p := x] ! p, e) = from_variant_T P var (h ! p)"
    using a r by simp
  moreover have "\<forall>q. q \<noteq> p \<longrightarrow> h[p := x] ! q = h ! q"
    by simp
  ultimately show "\<exists>h' e. from_variant_shared_ptr P var (h, vo) = ((h', Some p), e)
           \<and> length h' = length h
           \<and> (h' ! p, e) = from_variant_T P var (h ! p)
           \<and> (\<forall>q. q \<noteq> p \<longrightarrow> h' ! q = h ! q)"
    by blast
next
  assume a: "\<not> is_null var \<and> vo = None"
  obtain x e where r: "from_variant_T P var (default_T P) = (x, e)"
    by (cases "from_variant_T P var (default_T P)")
  let ?h' = "(h @ [default_T P])[length h := x]"
  have "from_variant_shared_ptr P var (h, vo) = ((?h', Some (length h)), e)"
    using a r by (simp add: from_variant_shared_ptr_def make_shared_def)
  moreover have "length ?h' = Suc (length h)"
    by simp
  moreover have "(?h' ! length h, e) = from_variant_T P var (default_T P)"
    using r by simp
  moreover have "\<forall>q < length h. ?h' ! q = h ! q"
    by (simp add: nth_append)
  ultimately show "\<exists>h' e. from_variant_shared_ptr P var (h, vo) = ((h', Some (length h)), e)
           \<and> length h' = Suc (length h)
           \<and> (h' ! length h, e) = from_variant_T P var (default_T P)
           \<and> (\<forall>q < length h. h' ! q = h ! q)"
    by blast
next
  assume a: "length (fst (fst (from_variant_shared_ptr P var (h, vo)))) \<noteq> length h"
  show "vo = None"
  proof (rule ccontr)
    assume "vo \<noteq> None"
    then obtain p' where "vo = Some p'" by blast
    then have "length (fst (fst (from_variant_shared_ptr P var (h, vo)))) = length h"
      by (simp add: from_variant_shared_ptr_def split: prod.splits)
    with a show False by simp
  qed
  show "\<not> is_null var"
  proof
    assume "is_null var"
    then have "length (fst (fst (from_variant_shared_ptr P var (h, vo)))) = length h"
      by (simp add: from_variant_shared_ptr_def)
    with a show False by simp
  qed
next
  show "to_variant_shared_ptr P h None v = Null"
    by (simp add: to_variant_shared_ptr_def assign_move_def)
  show "to_variant_shared_ptr P h (Some p) v = to_variant_T P (h ! p) v"
    by (simp add: to_variant_shared_ptr_def)
  show "to_variant_shared_ptr P h (Some p) Null = variant_T P (h ! p)"
    by (simp add: to_variant_shared_ptr_def variant_T_def)
qed

text \<open>
  The store holds the \<^verbatim>\<open>int64_t\<close> objects 4 and 5 at addresses 0 and 1. A Null source
  empties a pointer to address 1; the source 9 is written into the object at address 1 of a
  pointer that owns it, at the same address and in a store of the same size; with an empty
  pointer the source 9 goes into a new object at address 2.
\<close>

theorem shared_ptr_conversion_witness:
  "is_null Null
   \<and> from_variant_shared_ptr (int64_serializable (\<lambda>v. Inl type_mismatch)) Null ([4, 5], Some 1)
       = (([4, 5], None), None)
   \<and> \<not> is_null (Int64 9) \<and> (1 :: nat) < length [4 :: int64_t, 5]
   \<and> from_variant_shared_ptr (int64_serializable (\<lambda>v. Inl type_mismatch)) (Int64 9) ([4, 5], Some 1)
       = (([4, 9], Some 1), None)
   \<and> from_variant_shared_ptr (int64_serializable (\<lambda>v. Inl type_mismatch)) (Int64 9) ([4, 5], None)
       = (([4, 5, 9], Some 2), None)
   \<and> to_variant_shared_ptr (int64_serializable (\<lambda>v. Inl type_mismatch)) [4, 5] (Some 1) Null
       = Int64 5"
proof -
  let ?I = "int64_serializable (\<lambda>v. Inl type_mismatch)"
  have n: "is_null Null" and nn: "\<not> is_null (Int64 9)"
    by (simp_all add: is_null_def)
  have len: "(1 :: nat) < length [4 :: int64_t, 5]"
    by simp
  have conv: "from_variant_T ?I (Int64 9) y = (9, None)" for y
    by (simp add: int64_serializable_def)
  from shared_ptr_conversion [of Null ?I "[4, 5]" "Some 1" 1 Null] n
  have a: "from_variant_shared_ptr ?I Null ([4, 5], Some 1) = (([4, 5], None), None)"
    by blast
  from shared_ptr_conversion [of "Int64 9" ?I "[4, 5]" "Some 1" 1 Null] nn len
  obtain h' e where b0: "from_variant_shared_ptr ?I (Int64 9) ([4, 5], Some 1) = ((h', Some 1), e)"
    and bl: "length h' = length [4 :: int64_t, 5]"
    and bp: "(h' ! 1, e) = from_variant_T ?I (Int64 9) ([4, 5] ! 1)"
    and bq: "\<forall>q. q \<noteq> 1 \<longrightarrow> h' ! q = [4, 5] ! q"
    by blast
  have "h' = [4, 9]"
  proof (rule nth_equalityI)
    show "length h' = length [4 :: int64_t, 9]"
      using bl by simp
    fix i
    assume "i < length h'"
    then have "i = 0 \<or> i = 1"
      using bl by auto
    then show "h' ! i = [4, 9] ! i"
      using bp bq by (auto simp: conv)
  qed
  moreover have "e = None"
    using bp by (simp add: conv)
  ultimately have b: "from_variant_shared_ptr ?I (Int64 9) ([4, 5], Some 1) = (([4, 9], Some 1), None)"
    using b0 by simp
  have c: "from_variant_shared_ptr ?I (Int64 9) ([4, 5], None) = (([4, 5, 9], Some 2), None)"
    by (simp add: from_variant_shared_ptr_def is_null_def int64_serializable_def make_shared_def)
  from shared_ptr_conversion [of Null ?I "[4, 5]" "Some 1" 1 Null]
  have "to_variant_shared_ptr ?I [4, 5] (Some 1) Null = to_variant_T ?I ([4, 5] ! 1) Null"
    by blast
  then have d: "to_variant_shared_ptr ?I [4, 5] (Some 1) Null = Int64 5"
    by (simp add: int64_serializable_def)
  from n a nn len b c d show ?thesis
    by blast
qed

section \<open>Accessors\<close>

text \<open>
  C2. \<^verbatim>\<open>get_string()\<close>, \<^verbatim>\<open>get_array()\<close> and \<^verbatim>\<open>get_object()\<close>, const and mutable, fail with a
  type mismatch whenever the tag of the variant is not the required kind, and then leave
  the variant as it was; \<^verbatim>\<open>get_string()\<close> on \<^verbatim>\<open>variant(42)\<close> fails. The one exception: the
  mutable \<^verbatim>\<open>get_array()\<close> / \<^verbatim>\<open>get_object()\<close> on a Null variant succeeds and turns the variant
  into an empty Array / Object; the const forms fail on Null. On the required kind each
  accessor returns the payload.
\<close>

theorem get_accessors_exact_tag:
  "(\<not> is_string v \<longrightarrow> get_string v = Inl type_mismatch)
   \<and> (\<not> is_array v \<longrightarrow> get_array_const v = Inl type_mismatch)
   \<and> (\<not> is_object v \<longrightarrow> get_object_const v = Inl type_mismatch)
   \<and> (\<not> is_array v \<and> \<not> is_null v \<longrightarrow> get_array v = (v, Inl type_mismatch))
   \<and> (\<not> is_object v \<and> \<not> is_null v \<longrightarrow> get_object v = (v, Inl type_mismatch))
   \<and> (is_string v \<longrightarrow> (\<exists>s. v = String s \<and> get_string v = Inr s))
   \<and> (is_array v \<longrightarrow>
        (\<exists>vs. v = Array vs \<and> get_array_const v = Inr vs \<and> get_array v = (v, Inr vs)))
   \<and> (is_object v \<longrightarrow>
        (\<exists>kvs. v = Object kvs \<and> get_object_const v = Inr kvs \<and> get_object v = (v, Inr kvs)))
   \<and> get_string (variant_int 42) = Inl type_mismatch
   \<and> get_array Null = (Array [], Inr [])
   \<and> get_object Null = (Object [], Inr [])
   \<and> get_array_const Null = Inl type_mismatch
   \<and> get_object_const Null = Inl type_mismatch"
  by (cases v)
    (simp_all add: is_string_def is_array_def is_object_def is_null_def variant_int_def)

theorem get_accessors_exact_tag_witness:
  "\<not> is_string (Int64 42) \<and> get_string (Int64 42) = Inl type_mismatch
   \<and> \<not> is_array (Int64 42) \<and> get_array_const (Int64 42) = Inl type_mismatch
   \<and> \<not> is_null (Int64 42) \<and> get_array (Int64 42) = (Int64 42, Inl type_mismatch)
   \<and> \<not> is_object (Int64 42) \<and> get_object (Int64 42) = (Int64 42, Inl type_mismatch)
   \<and> get_object_const (Int64 42) = Inl type_mismatch
   \<and> is_array (Array [Null]) \<and> get_array (Array [Null]) = (Array [Null], Inr [Null])"
proof -
  have h: "\<not> is_string (Int64 42)" "\<not> is_array (Int64 42)" "\<not> is_null (Int64 42)"
    "\<not> is_object (Int64 42)"
    by (simp_all add: is_string_def is_array_def is_null_def is_object_def)
  have k: "is_array (Array [Null])"
    by (simp add: is_array_def)
  from get_accessors_exact_tag [of "Array [Null]"] k
  have "get_array (Array [Null]) = (Array [Null], Inr [Null])"
    by auto
  with get_accessors_exact_tag [of "Int64 42"] h k
  show ?thesis
    by blast
qed

section \<open>Failure of a container conversion\<close>

text \<open>
  C3, as stated, fails: \<^verbatim>\<open>from_variant\<close> into a \<^verbatim>\<open>std::vector<std::vector<int64_t>>\<close> that
  holds \<open>[[7]]\<close>, from the Array \<open>[ [], 5 ]\<close>. The first element converts to the empty
  vector, the second is not an Array, so \<^verbatim>\<open>as<T>()\<close> throws a type mismatch: the call fails
  and the destination is left as \<open>[[]]\<close>, not as \<open>[[7]]\<close>.
\<close>

theorem from_variant_vector_partial_counterexample:
  "from_variant_vector (vector_serializable (int64_serializable (\<lambda>v. Inl type_mismatch)))
       (Array [Array [], Int64 5]) [[7]]
     = ([[]], Some type_mismatch)"
  by (simp add: from_variant_vector_def as_T_def vector_serializable_def)

text \<open>
  C3, amended. \<^verbatim>\<open>from_variant\<close> into a vector or an unordered set fails without touching
  the destination when the source is not an Array (the const \<^verbatim>\<open>get_array()\<close> throws before
  \<^verbatim>\<open>clear()\<close>). When the elements \<open>pre\<close> convert to \<open>xs\<close> and the next element fails with
  \<open>e\<close>, the call fails with \<open>e\<close> and the destination holds exactly \<open>xs\<close>, whatever it
  held before. When every element converts, the call succeeds and the destination holds
  the converted elements.
\<close>

theorem from_variant_container_failure:
  "(get_array_const var = Inl e \<longrightarrow>
       from_variant_vector P var tmp = (tmp, Some e)
       \<and> from_variant_unordered_set P var vo = (vo, Some e))
   \<and> (map (as_T P) pre = map Inr xs \<and> as_T P bad = Inl e \<longrightarrow>
       from_variant_vector P (Array (pre @ bad # post)) tmp = (xs, Some e)
       \<and> from_variant_unordered_set P (Array (pre @ bad # post)) vo = (set xs, Some e))
   \<and> (map (as_T P) vars = map Inr xs \<longrightarrow>
       from_variant_vector P (Array vars) tmp = (xs, None)
       \<and> from_variant_unordered_set P (Array vars) vo = (set xs, None))"
proof (intro conjI impI)
  assume "get_array_const var = Inl e"
  then show "from_variant_vector P var tmp = (tmp, Some e)"
    and "from_variant_unordered_set P var vo = (vo, Some e)"
    by (simp_all add: from_variant_vector_def from_variant_unordered_set_def)
next
  assume a: "map (as_T P) pre = map Inr xs \<and> as_T P bad = Inl e"
  then have "from_variant_vector_loop P (pre @ bad # post) [] = ([] @ xs, Some e)"
    by (intro from_variant_vector_loop_failure) simp_all
  then show "from_variant_vector P (Array (pre @ bad # post)) tmp = (xs, Some e)"
    by (simp add: from_variant_vector_def)
  from a have "from_variant_unordered_set_loop P (pre @ bad # post) {} = ({} \<union> set xs, Some e)"
    by (intro from_variant_unordered_set_loop_failure) simp_all
  then show "from_variant_unordered_set P (Array (pre @ bad # post)) vo = (set xs, Some e)"
    by (simp add: from_variant_unordered_set_def)
next
  assume a: "map (as_T P) vars = map Inr xs"
  then have "from_variant_vector_loop P vars [] = ([] @ xs, None)"
    by (rule from_variant_vector_loop_success)
  then show "from_variant_vector P (Array vars) tmp = (xs, None)"
    by (simp add: from_variant_vector_def)
  from a have "from_variant_unordered_set_loop P vars {} = ({} \<union> set xs, None)"
    by (rule from_variant_unordered_set_loop_success)
  then show "from_variant_unordered_set P (Array vars) vo = (set xs, None)"
    by (simp add: from_variant_unordered_set_def)
qed

theorem from_variant_container_failure_witness:
  "get_array_const (Int64 5) = Inl type_mismatch
   \<and> from_variant_vector (int64_serializable (\<lambda>v. Inl type_mismatch)) (Int64 5) [7]
       = ([7], Some type_mismatch)
   \<and> map (as_T (int64_serializable (\<lambda>v. Inl type_mismatch))) [Int64 1, Int64 2]
       = map Inr [1, 2]
   \<and> as_T (int64_serializable (\<lambda>v. Inl type_mismatch)) (Array []) = Inl type_mismatch
   \<and> from_variant_vector (int64_serializable (\<lambda>v. Inl type_mismatch))
        (Array ([Int64 1, Int64 2] @ Array [] # [Int64 4])) [7]
       = ([1, 2], Some type_mismatch)
   \<and> from_variant_unordered_set (int64_serializable (\<lambda>v. Inl type_mismatch))
        (Array ([Int64 1, Int64 2] @ Array [] # [Int64 4])) {7}
       = (set [1, 2], Some type_mismatch)
   \<and> from_variant_vector (int64_serializable (\<lambda>v. Inl type_mismatch))
        (Array [Int64 1, Int64 2]) [7]
       = ([1, 2], None)"
proof -
  let ?I = "int64_serializable (\<lambda>v. Inl type_mismatch)"
  have h1: "get_array_const (Int64 5) = Inl type_mismatch"
    by simp
  have h2: "map (as_T ?I) [Int64 1, Int64 2] = map Inr [1, 2]"
    by (simp add: as_T_def int64_serializable_def)
  have h3: "as_T ?I (Array []) = Inl type_mismatch"
    by (simp add: as_T_def int64_serializable_def)
  from from_variant_container_failure
    [of "Int64 5" type_mismatch ?I "[7]" "{7}" "[Int64 1, Int64 2]" "[1, 2]" "Array []"
        "[Int64 4]" "[Int64 1, Int64 2]"]
    h1 h2 h3
  show ?thesis
    by simp
qed

section \<open>Moving a variant\<close>

text \<open>
  C4. For a variant \<open>v1\<close> that holds a String, Array or Object payload: move construction
  gives the new variant the tag and the handle of \<open>v1\<close> without touching the heap, and
  leaves \<open>v1\<close> Null; destroying the source and the new variant afterwards releases the
  handle exactly once. Move assignment \<^verbatim>\<open>v2 = move(v1)\<close> first releases what \<open>v2\<close> held,
  gives \<open>v2\<close> the tag and the handle of \<open>v1\<close> and leaves \<open>v1\<close> Null; when \<open>v2\<close> did not
  already own the very payload of \<open>v1\<close>, destroying both afterwards has released the handle
  of \<open>v1\<close> exactly once.
\<close>

theorem move_leaves_source_null_single_release:
  "owns_payload v1 \<longrightarrow>
     fst (move_construct v1) = v1
     \<and> storage_is_null (snd (move_construct v1))
     \<and> released (destroy (fst (move_construct v1)) (destroy (snd (move_construct v1)) h))
         = slot v1 # released h
     \<and> count_list (released (destroy (fst (move_construct v1))
                                 (destroy (snd (move_construct v1)) h))) (slot v1)
         = Suc (count_list (released h) (slot v1))
     \<and> fst (move_assign v2 v1 h) = v1
     \<and> storage_is_null (fst (snd (move_assign v2 v1 h)))
     \<and> snd (snd (move_assign v2 v1 h)) = destroy v2 h
     \<and> ((owns_payload v2 \<longrightarrow> slot v2 \<noteq> slot v1) \<longrightarrow>
          count_list (released (destroy (fst (move_assign v2 v1 h))
                                  (destroy (fst (snd (move_assign v2 v1 h)))
                                     (snd (snd (move_assign v2 v1 h)))))) (slot v1)
            = Suc (count_list (released h) (slot v1)))"
proof (intro impI conjI)
  assume own: "owns_payload v1"
  have null: "\<not> owns_payload null_storage"
    by (simp add: owns_payload_def null_storage_def)
  show "fst (move_construct v1) = v1"
    by (simp add: move_construct_def)
  show "storage_is_null (snd (move_construct v1))"
    by (simp add: move_construct_def storage_is_null_def null_storage_def)
  show rel: "released (destroy (fst (move_construct v1)) (destroy (snd (move_construct v1)) h))
         = slot v1 # released h"
    using own null by (simp add: move_construct_def destroy_def)
  show "count_list (released (destroy (fst (move_construct v1))
                                 (destroy (snd (move_construct v1)) h))) (slot v1)
         = Suc (count_list (released h) (slot v1))"
    by (simp only: rel) simp
  show "fst (move_assign v2 v1 h) = v1"
    by (simp add: move_assign_def)
  show "storage_is_null (fst (snd (move_assign v2 v1 h)))"
    by (simp add: move_assign_def storage_is_null_def null_storage_def)
  show "snd (snd (move_assign v2 v1 h)) = destroy v2 h"
    by (simp add: move_assign_def)
  assume apart: "owns_payload v2 \<longrightarrow> slot v2 \<noteq> slot v1"
  then have "count_list (released (destroy v2 h)) (slot v1) = count_list (released h) (slot v1)"
    by (simp add: destroy_def)
  then show "count_list (released (destroy (fst (move_assign v2 v1 h))
                                  (destroy (fst (snd (move_assign v2 v1 h)))
                                     (snd (snd (move_assign v2 v1 h)))))) (slot v1)
            = Suc (count_list (released h) (slot v1))"
    using own null by (simp add: move_assign_def destroy_def)
qed

text \<open>
  \<open>v1\<close> holds a String at handle 7, \<open>v2\<close> an Array at handle 3; the heap has released
  nothing yet. After \<^verbatim>\<open>v2 = move(v1)\<close> and the destruction of both, handle 3 and handle 7
  have each been released once.
\<close>

theorem move_leaves_source_null_single_release_witness:
  "owns_payload \<lparr>type_tag = string_type, slot = 7\<rparr>
   \<and> storage_is_null (snd (move_construct \<lparr>type_tag = string_type, slot = 7\<rparr>))
   \<and> released (destroy (fst (move_assign \<lparr>type_tag = array_type, slot = 3\<rparr>
                                          \<lparr>type_tag = string_type, slot = 7\<rparr>
                                          \<lparr>cells = [3 \<mapsto> array_payload [], 7 \<mapsto> string_payload ''a''],
                                             released = []\<rparr>))
               (destroy (fst (snd (move_assign \<lparr>type_tag = array_type, slot = 3\<rparr>
                                          \<lparr>type_tag = string_type, slot = 7\<rparr>
                                          \<lparr>cells = [3 \<mapsto> array_payload [], 7 \<mapsto> string_payload ''a''],
                                             released = []\<rparr>)))
                  (snd (snd (move_assign \<lparr>type_tag = array_type, slot = 3\<rparr>
                                          \<lparr>type_tag = string_type, slot = 7\<rparr>
                                          \<lparr>cells = [3 \<mapsto> array_payload [], 7 \<mapsto> string_payload ''a''],
                                             released = []\<rparr>)))))
       = [7, 3]"
proof -
  let ?v1 = "\<lparr>type_tag = string_type, slot = 7\<rparr>"
  let ?v2 = "\<lparr>type_tag = array_type, slot = 3\<rparr>"
  let ?h = "\<lparr>cells = [3 \<mapsto> array_payload [], 7 \<mapsto> string_payload ''a''], released = []\<rparr>"
  have own: "owns_payload ?v1"
    by (simp add: owns_payload_def)
  from move_leaves_source_null_single_release [of ?v1 ?h ?v2] own
  have "storage_is_null (snd (move_construct ?v1))"
    by blast
  moreover have "released (destroy (fst (move_assign ?v2 ?v1 ?h))
      (destroy (fst (snd (move_assign ?v2 ?v1 ?h))) (snd (snd (move_assign ?v2 ?v1 ?h))))) = [7, 3]"
    by (simp add: move_assign_def destroy_def owns_payload_def null_storage_def)
  ultimately show ?thesis
    using own by blast
qed

section \<open>Round trips of the containers\<close>

text \<open>
  C5. \<^verbatim>\<open>to_variant\<close> of a \<^verbatim>\<open>std::vector<T>\<close> \<open>xs\<close> is an Array with as many elements as
  \<open>xs\<close> whose \<open>i\<close>-th element is \<^verbatim>\<open>variant(xs[i])\<close>, in order and with duplicates kept.
  When \<^verbatim>\<open>T\<close>'s pair is a round trip on the elements of \<open>xs\<close>
  (\<^verbatim>\<open>variant(x).as<T>() == x\<close>), \<^verbatim>\<open>from_variant\<close> of that Array into any vector succeeds and
  leaves it equal to \<open>xs\<close>.
\<close>

theorem to_from_variant_vector_round_trip:
  "to_variant_vector P xs v = Array (map (variant_T P) xs)
   \<and> (\<exists>vars. to_variant_vector P xs v = Array vars \<and> length vars = length xs
         \<and> (\<forall>i < length xs. vars ! i = variant_T P (xs ! i)))
   \<and> ((\<forall>x \<in> set xs. as_T P (variant_T P x) = Inr x)
        \<longrightarrow> from_variant_vector P (to_variant_vector P xs v) tmp = (xs, None))"
proof (intro conjI impI)
  show eq: "to_variant_vector P xs v = Array (map (variant_T P) xs)"
    by (rule to_variant_vector_eq)
  show "\<exists>vars. to_variant_vector P xs v = Array vars \<and> length vars = length xs
         \<and> (\<forall>i < length xs. vars ! i = variant_T P (xs ! i))"
    by (simp add: eq)
  assume "\<forall>x \<in> set xs. as_T P (variant_T P x) = Inr x"
  then have "map (as_T P) (map (variant_T P) xs) = map Inr xs"
    by (rule map_as_T_round_trip)
  then have "from_variant_vector_loop P (map (variant_T P) xs) [] = ([] @ xs, None)"
    by (rule from_variant_vector_loop_success)
  then show "from_variant_vector P (to_variant_vector P xs v) tmp = (xs, None)"
    by (simp add: eq from_variant_vector_def)
qed

text \<open>
  The vector \<open>[1, 2, 3]\<close> of \<^verbatim>\<open>int64_t\<close> becomes the Array of the Int64 variants 1, 2, 3 in
  that order, and converts back to \<open>[1, 2, 3]\<close> into a vector that held \<open>[9]\<close>.
\<close>

theorem to_from_variant_vector_round_trip_witness:
  "to_variant_vector (int64_serializable (\<lambda>v. Inl type_mismatch)) [1, 2, 3] Null
     = Array [Int64 1, Int64 2, Int64 3]
   \<and> from_variant_vector (int64_serializable (\<lambda>v. Inl type_mismatch))
        (to_variant_vector (int64_serializable (\<lambda>v. Inl type_mismatch)) [1, 2, 3] Null) [9]
     = ([1, 2, 3], None)"
proof -
  let ?I = "int64_serializable (\<lambda>v. Inl type_mismatch)"
  have inv: "\<forall>x \<in> set [1, 2, 3]. as_T ?I (variant_T ?I x) = Inr x"
    by (simp add: as_T_def variant_T_def int64_serializable_def)
  note inst = to_from_variant_vector_round_trip [of ?I "[1, 2, 3]" Null "[9]"]
  from inst have "to_variant_vector ?I [1, 2, 3] Null = Array (map (variant_T ?I) [1, 2, 3])"
    by (rule conjunct1)
  then have tv: "to_variant_vector ?I [1, 2, 3] Null = Array [Int64 1, Int64 2, Int64 3]"
    by (simp add: variant_T_def int64_serializable_def)
  from inst inv
  have rt: "from_variant_vector ?I (to_variant_vector ?I [1, 2, 3] Null) [9] = ([1, 2, 3], None)"
    by blast
  from tv rt show ?thesis
    by (rule conjI)
qed

text \<open>
  C6, for the overloads that exist. \<^verbatim>\<open>to_variant\<close> of a \<^verbatim>\<open>std::unordered_set<T>\<close> \<open>S\<close>,
  whatever the order in which the container visits its elements, is an Array with one
  variant per element; when \<^verbatim>\<open>T\<close>'s pair is a round trip on the elements, \<^verbatim>\<open>from_variant\<close> of
  that Array, and of an Array holding the elements' variants in any other order, gives a
  set equal to \<open>S\<close>. \<^verbatim>\<open>to_variant\<close> of a \<^verbatim>\<open>std::set<T>\<close> \<open>R\<close>, visited in ascending order of
  \<^verbatim>\<open>T\<close>'s own (irreflexive) comparison, is the Array of the elements' variants in that order,
  one per element. The way back into a \<^verbatim>\<open>std::set<T>\<close> is the template that cannot be
  instantiated.
\<close>

theorem unordered_set_round_trip:
  "(set (order S) = S \<and> distinct (order S) \<longrightarrow>
      to_variant_unordered_set P order S vo = Array (map (variant_T P) (order S))
      \<and> (\<exists>vars. to_variant_unordered_set P order S vo = Array vars
            \<and> length vars = card S \<and> set vars = variant_T P ` S)
      \<and> ((\<forall>x \<in> S. as_T P (variant_T P x) = Inr x) \<longrightarrow>
            from_variant_unordered_set P (to_variant_unordered_set P order S vo) vo' = (S, None)))
   \<and> ((\<forall>x \<in> set ys. as_T P (variant_T P x) = Inr x) \<longrightarrow>
        from_variant_unordered_set P (Array (map (variant_T P) ys)) vo' = (set ys, None))
   \<and> (visits_ascending lt ascending R \<and> (\<forall>x. \<not> lt x x) \<longrightarrow>
        to_variant_set Q ascending R vo = Array (map (variant_T Q) (ascending R))
        \<and> (\<exists>vars. to_variant_set Q ascending R vo = Array vars
              \<and> length vars = card R \<and> set vars = variant_T Q ` R))"
proof (intro conjI impI)
  assume ord: "set (order S) = S \<and> distinct (order S)"
  then have len: "length (order S) = card S"
    using distinct_card [of "order S"] by simp
  then show eq: "to_variant_unordered_set P order S vo = Array (map (variant_T P) (order S))"
    by (simp add: to_variant_unordered_set_def to_variant_set_loop_eq)
  show "\<exists>vars. to_variant_unordered_set P order S vo = Array vars
            \<and> length vars = card S \<and> set vars = variant_T P ` S"
    using ord len by (simp add: eq)
  assume "\<forall>x \<in> S. as_T P (variant_T P x) = Inr x"
  with ord have "\<forall>x \<in> set (order S). as_T P (variant_T P x) = Inr x"
    by simp
  then have "map (as_T P) (map (variant_T P) (order S)) = map Inr (order S)"
    by (rule map_as_T_round_trip)
  then have "from_variant_unordered_set_loop P (map (variant_T P) (order S)) {}
      = ({} \<union> set (order S), None)"
    by (rule from_variant_unordered_set_loop_success)
  then show "from_variant_unordered_set P (to_variant_unordered_set P order S vo) vo' = (S, None)"
    using ord by (simp add: eq from_variant_unordered_set_def)
next
  assume "\<forall>x \<in> set ys. as_T P (variant_T P x) = Inr x"
  then have "map (as_T P) (map (variant_T P) ys) = map Inr ys"
    by (rule map_as_T_round_trip)
  then have "from_variant_unordered_set_loop P (map (variant_T P) ys) {} = ({} \<union> set ys, None)"
    by (rule from_variant_unordered_set_loop_success)
  then show "from_variant_unordered_set P (Array (map (variant_T P) ys)) vo' = (set ys, None)"
    by (simp add: from_variant_unordered_set_def)
next
  assume asc: "visits_ascending lt ascending R \<and> (\<forall>x. \<not> lt x x)"
  then have els: "set (ascending R) = R" and srt: "sorted_wrt lt (ascending R)"
    by (simp_all add: visits_ascending_def)
  from srt asc have "distinct (ascending R)"
    by (intro sorted_wrt_irreflexive_distinct [of lt]) simp_all
  then have len: "length (ascending R) = card R"
    using distinct_card [of "ascending R"] els by simp
  then show eq: "to_variant_set Q ascending R vo = Array (map (variant_T Q) (ascending R))"
    by (simp add: to_variant_set_def to_variant_set_loop_eq)
  show "\<exists>vars. to_variant_set Q ascending R vo = Array vars
              \<and> length vars = card R \<and> set vars = variant_T Q ` R"
    using els len by (simp add: eq)
qed

text \<open>
  The unordered set \<open>{1, 2, 3}\<close> of \<^verbatim>\<open>int64_t\<close>, visited in the order 3, 1, 2, becomes the
  Array \<open>[3, 1, 2]\<close> and converts back to \<open>{1, 2, 3}\<close>; the \<^verbatim>\<open>std::set<int64_t>\<close>
  \<open>{1, -1}\<close>, visited in signed ascending order, becomes the Array \<open>[-1, 1]\<close>.
\<close>

theorem unordered_set_round_trip_witness:
  "set [3, 1, 2 :: int64_t] = {1, 2, 3}
   \<and> distinct [3, 1, 2 :: int64_t]
   \<and> to_variant_unordered_set (int64_serializable (\<lambda>v. Inl type_mismatch)) (\<lambda>S. [3, 1, 2])
        {1, 2, 3} Null
       = Array [Int64 3, Int64 1, Int64 2]
   \<and> from_variant_unordered_set (int64_serializable (\<lambda>v. Inl type_mismatch))
        (to_variant_unordered_set (int64_serializable (\<lambda>v. Inl type_mismatch)) (\<lambda>S. [3, 1, 2])
           {1, 2, 3} Null) {9}
       = ({1, 2, 3}, None)
   \<and> visits_ascending word_sless (\<lambda>S. [- 1, 1 :: int64_t]) {1, - 1}
   \<and> (\<forall>x :: int64_t. \<not> word_sless x x)
   \<and> to_variant_set (int64_serializable (\<lambda>v. Inl type_mismatch)) (\<lambda>S. [- 1, 1]) {1, - 1} Null
       = Array [Int64 (- 1), Int64 1]"
proof -
  let ?I = "int64_serializable (\<lambda>v. Inl type_mismatch)"
  let ?order = "\<lambda>S :: int64_t set. [3, 1, 2 :: int64_t]"
  let ?asc = "\<lambda>S :: int64_t set. [- 1, 1 :: int64_t]"
  have h0: "set [3, 1, 2 :: int64_t] = {1, 2, 3}" "distinct [3, 1, 2 :: int64_t]"
    by auto
  then have h1: "set (?order {1, 2, 3}) = {1, 2, 3} \<and> distinct (?order {1, 2, 3})"
    by simp
  have h2: "\<forall>x \<in> {1, 2, 3}. as_T ?I (variant_T ?I x) = Inr x"
    by (simp add: as_T_def variant_T_def int64_serializable_def)
  have h3: "visits_ascending word_sless ?asc {1, - 1}"
    by (auto simp: visits_ascending_def word_sless_alt)
  have h4: "\<forall>x :: int64_t. \<not> word_sless x x"
    by (simp add: word_sless_alt)
  note inst = unordered_set_round_trip
    [of ?order "{1, 2, 3}" ?I Null "{9}" "[3, 1, 2]" word_sless ?asc "{1, - 1}" ?I]
  from inst h1
  have "to_variant_unordered_set ?I ?order {1, 2, 3} Null
      = Array (map (variant_T ?I) (?order {1, 2, 3}))"
    by blast
  then have a: "to_variant_unordered_set ?I ?order {1, 2, 3} Null
      = Array [Int64 3, Int64 1, Int64 2]"
    by (simp add: variant_T_def int64_serializable_def)
  from inst h1 h2
  have b: "from_variant_unordered_set ?I (to_variant_unordered_set ?I ?order {1, 2, 3} Null) {9}
      = ({1, 2, 3}, None)"
    by blast
  from inst h3 h4
  have "to_variant_set ?I ?asc {1, - 1} Null = Array (map (variant_T ?I) (?asc {1, - 1}))"
    by blast
  then have c: "to_variant_set ?I ?asc {1, - 1} Null = Array [Int64 (- 1), Int64 1]"
    by (simp add: variant_T_def int64_serializable_def)
  from h0 a b h3 h4 c show ?thesis
    by blast
qed


section \<open>Optional values\<close>

text \<open>
  What the optional overloads compute: the constructor from an absent optional leaves the
  variant as the uninitialised storage reads; from a present optional it is
  \<^verbatim>\<open>variant(x)\<close>. \<^verbatim>\<open>from_variant\<close> maps Null to the absent optional and any other source to a
  present optional holding what \<^verbatim>\<open>T\<close>'s \<^verbatim>\<open>from_variant\<close> makes of a default-constructed \<^verbatim>\<open>T\<close>.
\<close>

lemma optional_conversion:
  "variant_optional P raw None = raw
   \<and> variant_optional P raw (Some x) = variant_T P x
   \<and> from_variant_optional P Null vo = (None, None)
   \<and> (\<not> is_null var \<longrightarrow>
        from_variant_optional P var vo =
          (Some (fst (from_variant_T P var (default_T P))),
           snd (from_variant_T P var (default_T P))))"
  by (simp add: variant_optional_def assign_move_def from_variant_optional_def is_null_def
      split: prod.splits)

text \<open>
  C7 at the failing input: the variant constructed from the absent
  \<^verbatim>\<open>optional<int64_t>()\<close> in storage that reads as the Int64 variant 42 is that Int64
  variant, not Null.
\<close>

theorem variant_optional_absent_not_null:
  "variant_optional (int64_serializable (\<lambda>v. Inl type_mismatch)) (Int64 42) None = Int64 42
   \<and> \<not> is_null (variant_optional (int64_serializable (\<lambda>v. Inl type_mismatch)) (Int64 42) None)"
  by (simp add: variant_optional_def is_null_def)

section \<open>Coercing accessors\<close>

lemma uint_of_negative_sint:
  fixes x :: "64 word"
  assumes neg: "sint x < 0"
  shows "uint x = 2 ^ 64 + sint x"
proof -
  have "- (2 ^ (LENGTH(64) - 1)) \<le> sint x"
    by (rule sint_ge)
  then have lo: "- (2 ^ 63) \<le> sint x"
    by simp
  have "uint x = take_bit LENGTH(64) (sint x)"
    by (rule uint_sint)
  also have "\<dots> = sint x mod 2 ^ 64"
    by (simp add: take_bit_eq_mod)
  also have "\<dots> = (sint x + 2 ^ 64) mod 2 ^ 64"
    by simp
  also have "\<dots> = sint x + 2 ^ 64"
    using lo neg by (intro mod_pos_pos_trivial) simp_all
  finally show ?thesis
    by simp
qed

lemma uint_minus_one_64: "uint (- 1 :: 64 word) = 2 ^ 64 - 1"
  by (simp add: unsigned_minus_1_eq_mask mask_eq_exp_minus_1)

lemma int_to_string_42: "int_to_string 42 = ''42''"
  by (simp add: int_to_string_def to_decimal.simps digit_def)

text \<open>
  C8. On a Null, Int64, UInt64, Double or Bool variant \<^verbatim>\<open>as_string()\<close> succeeds with the
  text of the value: an integer in decimal, so \<^verbatim>\<open>variant(42).as_string()\<close> is \<^verbatim>\<open>"42"\<close>. It
  fails exactly when the kind is Array or Object, and then with a type mismatch.
\<close>

theorem as_string_renders_or_mismatch:
  "(get_type v = null_type \<or> get_type v = int64_type \<or> get_type v = uint64_type
      \<or> get_type v = double_type \<or> get_type v = bool_type
      \<longrightarrow> (\<exists>s. as_string null_text double_text bool_text v = Inr s))
   \<and> as_string null_text double_text bool_text Null = Inr null_text
   \<and> as_string null_text double_text bool_text (Int64 x) = Inr (int_to_string (sint x))
   \<and> as_string null_text double_text bool_text (UInt64 x) = Inr (int_to_string (uint x))
   \<and> as_string null_text double_text bool_text (Double d) = Inr (double_text d)
   \<and> as_string null_text double_text bool_text (Bool b) = Inr (bool_text b)
   \<and> as_string null_text double_text bool_text (variant_int 42) = Inr ''42''
   \<and> ((\<exists>e. as_string null_text double_text bool_text v = Inl e) \<longleftrightarrow> is_array v \<or> is_object v)
   \<and> (is_array v \<or> is_object v
        \<longrightarrow> as_string null_text double_text bool_text v = Inl type_mismatch)"
  by (cases v) (simp_all add: is_array_def is_object_def variant_int_def int_to_string_42)

theorem as_string_renders_or_mismatch_witness:
  "get_type (Bool True) = bool_type
   \<and> as_string ''null'' (\<lambda>d. ''?'') (\<lambda>b. if b then ''true'' else ''false'') (Bool True)
       = Inr ''true''
   \<and> is_array (Array [Int64 1])
   \<and> as_string ''null'' (\<lambda>d. ''?'') (\<lambda>b. if b then ''true'' else ''false'') (Array [Int64 1])
       = Inl type_mismatch
   \<and> as_string ''null'' (\<lambda>d. ''?'') (\<lambda>b. if b then ''true'' else ''false'') (Int64 (- 17))
       = Inr ''-17''"
proof -
  let ?f = "as_string ''null'' (\<lambda>d. ''?'') (\<lambda>b. if b then ''true'' else ''false'')"
  have h1: "get_type (Bool True) = bool_type"
    by simp
  have h2: "is_array (Array [Int64 1])"
    by (simp add: is_array_def)
  note inst = as_string_renders_or_mismatch
    [of _ "''null''" "\<lambda>d. ''?''" "\<lambda>b. if b then ''true'' else ''false''"]
  from inst [of "Array [Int64 1]"] h2
  have a: "?f (Array [Int64 1]) = Inl type_mismatch"
    by blast
  from inst [of Null _ _ True]
  have "?f (Bool True) = Inr (if True then ''true'' else ''false'')"
    by blast
  then have b: "?f (Bool True) = Inr ''true''"
    by simp
  from inst [of Null "- 17"]
  have "?f (Int64 (- 17)) = Inr (int_to_string (sint (- 17 :: 64 word)))"
    by blast
  then have c: "?f (Int64 (- 17)) = Inr ''-17''"
    by (simp add: int_to_string_def to_decimal.simps digit_def)
  from h1 b h2 a c show ?thesis
    by blast
qed

text \<open>
  C9. On the numeric kinds Int64, UInt64, Double and Bool the four accessors
  \<^verbatim>\<open>as_int64\<close>, \<^verbatim>\<open>as_uint64\<close>, \<^verbatim>\<open>as_bool\<close> and \<^verbatim>\<open>as_double\<close> all succeed. A Double answers
  \<^verbatim>\<open>as_int64()\<close> by truncation toward zero: 3.9 gives 3, and so does the IEEE double
  nearest to it, \<open>8782019273372467 / 2^51\<close>; -3.9 gives -3. \<^verbatim>\<open>as_uint64()\<close>
  on an Int64 returns the same 64 bits: for a negative value \<open>x\<close> the unsigned reading is
  \<open>2^64 + x\<close>, and \<^verbatim>\<open>variant(-1).as_uint64()\<close> is \<open>2^64 - 1\<close>.
\<close>

theorem numeric_coercion:
  "(is_numeric v \<longrightarrow>
      (\<exists>a b c d. as_int64 r1 v = Inr a \<and> as_uint64 r2 v = Inr b
         \<and> as_bool r3 v = Inr c \<and> as_double rnd r4 v = Inr d))
   \<and> as_int64 r1 (Double d) = Inr (word_of_int (trunc_toward_zero d))
   \<and> as_int64 r1 (Double 3.9) = Inr 3
   \<and> as_int64 r1 (Double (8782019273372467 / 2251799813685248)) = Inr 3
   \<and> as_int64 r1 (Double (- 3.9)) = Inr (- 3)
   \<and> as_uint64 r2 (Int64 x) = Inr x
   \<and> (sint x < 0 \<longrightarrow> (\<exists>u. as_uint64 r2 (Int64 x) = Inr u \<and> uint u = 2 ^ 64 + sint x))
   \<and> (\<exists>u. as_uint64 r2 (variant_int (- 1)) = Inr u \<and> uint u = 2 ^ 64 - 1)"
proof (intro conjI impI)
  assume "is_numeric v"
  then show "\<exists>a b c d. as_int64 r1 v = Inr a \<and> as_uint64 r2 v = Inr b
         \<and> as_bool r3 v = Inr c \<and> as_double rnd r4 v = Inr d"
    by (cases v) (simp_all add: is_numeric_def)
next
  show "as_int64 r1 (Double d) = Inr (word_of_int (trunc_toward_zero d))"
    by simp
  show "as_int64 r1 (Double 3.9) = Inr 3"
    by (simp add: trunc_toward_zero_def)
  show "as_int64 r1 (Double (8782019273372467 / 2251799813685248)) = Inr 3"
    by (simp add: trunc_toward_zero_def)
  show "as_int64 r1 (Double (- 3.9)) = Inr (- 3)"
    by (simp add: trunc_toward_zero_def)
  show "as_uint64 r2 (Int64 x) = Inr x"
    by simp
  show "\<exists>u. as_uint64 r2 (variant_int (- 1)) = Inr u \<and> uint u = 2 ^ 64 - 1"
    by (simp add: variant_int_def uint_minus_one_64)
next
  assume "sint x < 0"
  then have "uint x = 2 ^ 64 + sint x"
    by (rule uint_of_negative_sint)
  then show "\<exists>u. as_uint64 r2 (Int64 x) = Inr u \<and> uint u = 2 ^ 64 + sint x"
    by simp
qed

theorem numeric_coercion_witness:
  "is_numeric (Double 3.9)
   \<and> as_int64 (\<lambda>v. Inl type_mismatch) (Double 3.9) = Inr 3
   \<and> sint (- 1 :: 64 word) < 0
   \<and> as_uint64 (\<lambda>v. Inl type_mismatch) (Int64 (- 1)) = Inr 18446744073709551615"
proof -
  have h1: "is_numeric (Double 3.9)"
    by (simp add: is_numeric_def)
  have h2: "sint (- 1 :: 64 word) < 0"
    by simp
  note inst = numeric_coercion
    [of "Double 3.9" "\<lambda>v. Inl type_mismatch" "\<lambda>v. Inl type_mismatch" "\<lambda>v. Inl type_mismatch"
        "\<lambda>r. r" "\<lambda>v. Inl type_mismatch" 0 "- 1"]
  from inst have a: "as_int64 (\<lambda>v. Inl type_mismatch) (Double 3.9) = Inr 3"
    by blast
  from inst have "as_uint64 (\<lambda>v. Inl type_mismatch) (Int64 (- 1)) = Inr (- 1)"
    by blast
  then have b: "as_uint64 (\<lambda>v. Inl type_mismatch) (Int64 (- 1)) = Inr 18446744073709551615"
    by simp
  from h1 a h2 b show ?thesis
    by blast
qed


section \<open>Time values\<close>

lemma sint_maximum_count: "sint (0x7fffffffffffffff :: 64 word) = 2 ^ 63 - 1"
  by simp

lemma sint_le_maximum_count: "sint (w :: 64 word) \<le> sint (0x7fffffffffffffff :: 64 word)"
proof -
  have "sint w < 2 ^ (LENGTH(64) - 1)"
    by (rule sint_lt)
  then have "sint w < 2 ^ 63"
    by simp
  then show ?thesis
    by (simp only: sint_maximum_count)
qed

text \<open>
  C10. \<^verbatim>\<open>time_point::min()\<close> is the epoch \<^verbatim>\<open>time_point(microseconds(0))\<close> and not
  the least time point: every time point with a negative microsecond count compares less
  than it (and such a time point exists). \<^verbatim>\<open>time_point::maximum()\<close> has count
  \<open>2^63 - 1\<close>, no time point compares greater than it and every time point is
  less-or-equal to it.
\<close>

theorem time_point_min_is_epoch_not_least:
  "time_point_min = time_point (microseconds 0)
   \<and> (\<forall>t. sint (count (elapsed t)) < 0 \<longrightarrow> time_point_less t time_point_min)
   \<and> (\<exists>t. time_point_less t time_point_min)
   \<and> sint (count (elapsed time_point_maximum)) = 2 ^ 63 - 1
   \<and> (\<forall>t. \<not> time_point_greater t time_point_maximum)
   \<and> (\<forall>t. time_point_less_eq t time_point_maximum)"
proof (intro conjI allI impI)
  show "time_point_min = time_point (microseconds 0)"
    by (simp add: time_point_min_def)
next
  fix t :: time_point
  assume "sint (count (elapsed t)) < 0"
  then show "time_point_less t time_point_min"
    by (simp add: time_point_less_def time_point_min_def time_point_def microseconds_def
        word_sless_alt)
next
  have "time_point_less (time_point (microseconds (- 1))) time_point_min"
    by (simp add: time_point_less_def time_point_min_def time_point_def microseconds_def
        word_sless_alt)
  then show "\<exists>t. time_point_less t time_point_min" ..
next
  show "sint (count (elapsed time_point_maximum)) = 2 ^ 63 - 1"
    by (simp add: time_point_maximum_def time_point_def microseconds_maximum_def
        microseconds_def)
next
  fix t :: time_point
  have "sint (count (elapsed t)) \<le> sint (0x7fffffffffffffff :: 64 word)"
    by (rule sint_le_maximum_count)
  then show "\<not> time_point_greater t time_point_maximum"
    by (simp only: time_point_greater_def time_point_maximum_def time_point_def
        microseconds_maximum_def microseconds_def word_sless_alt
        time_point.simps microseconds.simps)
next
  fix t :: time_point
  have "sint (count (elapsed t)) \<le> sint (0x7fffffffffffffff :: 64 word)"
    by (rule sint_le_maximum_count)
  then show "time_point_less_eq t time_point_maximum"
    by (simp only: time_point_less_eq_def time_point_maximum_def time_point_def
        microseconds_maximum_def microseconds_def word_sle_eq
        time_point.simps microseconds.simps)
qed

theorem time_point_min_is_epoch_not_least_witness:
  "sint (count (elapsed (time_point (microseconds (- 5))))) < 0
   \<and> time_point_less (time_point (microseconds (- 5))) time_point_min
   \<and> \<not> time_point_greater (time_point (microseconds (- 5))) time_point_maximum"
proof -
  have neg: "sint (count (elapsed (time_point (microseconds (- 5))))) < 0"
    by (simp add: time_point_def microseconds_def)
  from time_point_min_is_epoch_not_least neg
  show ?thesis
    by blast
qed

end
